theory Spec2Isabelle
  imports Main
begin

section \<open>Calendar dates\<close>

text \<open>
  \<open>datetime.date\<close>: a year, a month and a day. The repository compares two dates
  (\<open>body.birthday >= date.today()\<close>), reads \<open>.month\<close> and \<open>.day\<close>, and adds
  \<open>timedelta(days=7)\<close>. \<open>date.today()\<close> is an input of the model.
\<close>

record date =
  year :: nat
  month :: nat
  day :: nat

definition date_less :: "date \<Rightarrow> date \<Rightarrow> bool" where
  "date_less a b \<longleftrightarrow>
     year a < year b \<or>
     (year a = year b \<and> (month a < month b \<or> (month a = month b \<and> day a < day b)))"

definition date_ge :: "date \<Rightarrow> date \<Rightarrow> bool" where
  "date_ge a b \<longleftrightarrow> \<not> date_less a b"

definition is_leap :: "nat \<Rightarrow> bool" where
  "is_leap y \<longleftrightarrow> y mod 4 = 0 \<and> (y mod 100 \<noteq> 0 \<or> y mod 400 = 0)"

definition days_in_month :: "nat \<Rightarrow> nat \<Rightarrow> nat" where
  "days_in_month y m =
     (if m = 2 then (if is_leap y then 29 else 28)
      else if m = 4 \<or> m = 6 \<or> m = 9 \<or> m = 11 then 30 else 31)"

definition tomorrow :: "date \<Rightarrow> date" where
  "tomorrow d =
     (if day d < days_in_month (year d) (month d) then d\<lparr>day := day d + 1\<rparr>
      else if month d < 12 then \<lparr>year = year d, month = month d + 1, day = 1\<rparr>
      else \<lparr>year = year d + 1, month = 1, day = 1\<rparr>)"

primrec days_later :: "nat \<Rightarrow> date \<Rightarrow> date" where
  "days_later 0 d = d"
| "days_later (Suc n) d = days_later n (tomorrow d)"

text \<open>
  What the repository raises: \<open>HTTPException(status_code, detail)\<close> of its own,
  \<open>SQLAlchemyError\<close> from the session (with the message \<open>str(e)\<close>), and the
  \<open>OverflowError\<close> of \<open>date + timedelta\<close> beyond the year 9999.
\<close>

datatype exn =
    HTTPException nat string
  | SQLAlchemyError string
  | OverflowError string

definition MAXYEAR :: nat where
  "MAXYEAR = 9999"

definition date_add_days :: "date \<Rightarrow> nat \<Rightarrow> exn + date" where
  "date_add_days d n =
     (let r = days_later n d
      in if MAXYEAR < year r then Inl (OverflowError ''date value out of range'') else Inr r)"

section \<open>Entities and schemas\<close>

text \<open>
  \<open>ContactSchema\<close> and \<open>ContactUpdate\<close> (src/schema/contact.py) carry the same five
  fields; \<open>ContactSchema\<close> also bounds \<open>name\<close> and \<open>surname\<close> by 150 characters.
  \<open>Contact\<close> (src/entity/models.py) has these five columns and the primary key, the two
  timestamps and the owner's key. An object that was never flushed has no \<open>id\<close> and no
  timestamps, hence the options. A \<open>User\<close> is identified by its primary key.
\<close>

record ContactSchema =
  name :: string
  surname :: string
  email :: string
  phone :: string
  birthday :: date

type_synonym ContactUpdate = ContactSchema

record Contact = ContactSchema +
  id' :: "nat option"
  created_at :: "nat option"
  updated_at :: "nat option"
  user_id :: "nat option"

record User =
  uid :: nat
  username :: string
  user_email :: string

definition valid_ContactSchema :: "ContactSchema \<Rightarrow> bool" where
  "valid_ContactSchema body \<longleftrightarrow> length (name body) \<le> 150 \<and> length (surname body) \<le> 150"

text \<open>\<open>Contact(**body.model_dump(), user=user)\<close>: a transient object.\<close>

definition new_Contact :: "ContactSchema \<Rightarrow> User \<Rightarrow> Contact" where
  "new_Contact body user =
     \<lparr>name = name body, surname = surname body, email = email body, phone = phone body,
      birthday = birthday body,
      id' = None, created_at = None, updated_at = None, user_id = Some (uid user)\<rparr>"

section \<open>The database and the session\<close>

text \<open>
  The table \<open>contacts\<close> in storage order, its primary-key sequence, and the reading of
  the server clock that \<open>func.now()\<close> returns.
\<close>

record database =
  contacts :: "Contact list"
  contacts_id_seq :: nat
  now :: nat

text \<open>
  The constraints that src/entity/models.py declares on \<open>contacts\<close>: the primary key,
  \<open>unique=True\<close> on \<open>email\<close>, and \<open>String(150)\<close> on \<open>name\<close> and \<open>surname\<close>.
  \<open>violation others row\<close> is the complaint of the database when \<open>row\<close> is written
  beside the rows \<open>others\<close>; the message stands for the driver's text.
\<close>

definition violation :: "Contact list \<Rightarrow> Contact \<Rightarrow> string option" where
  "violation others row =
     (if id' row \<in> set (map id' others)
        then Some ''duplicate key value violates unique constraint contacts_pkey''
      else if email row \<in> set (map email others)
        then Some ''duplicate key value violates unique constraint contacts_email_key''
      else if 150 < length (name row) \<or> 150 < length (surname row)
        then Some ''value too long for type character varying(150)''
      else None)"

text \<open>
  The unit of work of a session: objects added, objects whose attributes were set, objects
  marked for deletion. A flush writes them in order inside one transaction:
  \<^item> INSERT draws a missing key from the sequence and fills missing timestamps with
    \<open>func.now()\<close> (\<open>default=func.now()\<close>);
  \<^item> UPDATE is emitted only when one of the five mapped attributes differs from the
    stored row, and then sets them and \<open>updated_at\<close> (\<open>onupdate=func.now()\<close>);
  \<^item> DELETE removes the row with the object's key.
  Each step yields the object as it is after the flush.
\<close>

datatype change = Insert Contact | Update Contact | Remove Contact

definition same_columns :: "Contact \<Rightarrow> Contact \<Rightarrow> bool" where
  "same_columns a b \<longleftrightarrow>
     name a = name b \<and> surname a = surname b \<and> email a = email b \<and> phone a = phone b \<and>
     birthday a = birthday b"

definition set_columns :: "Contact \<Rightarrow> ContactSchema \<Rightarrow> Contact" where
  "set_columns c d =
     c\<lparr>name := name d, surname := surname d, email := email d, phone := phone d,
       birthday := birthday d\<rparr>"

definition insert_row :: "Contact \<Rightarrow> database \<Rightarrow> Contact" where
  "insert_row c D =
     c\<lparr>id' := Some (case id' c of None \<Rightarrow> contacts_id_seq D | Some k \<Rightarrow> k),
       created_at := Some (case created_at c of None \<Rightarrow> now D | Some t \<Rightarrow> t),
       updated_at := Some (case updated_at c of None \<Rightarrow> now D | Some t \<Rightarrow> t)\<rparr>"

definition update_row :: "Contact \<Rightarrow> Contact \<Rightarrow> database \<Rightarrow> Contact" where
  "update_row old c D = (set_columns old (ContactSchema.truncate c))\<lparr>updated_at := Some (now D)\<rparr>"

fun apply_change :: "change \<Rightarrow> database \<Rightarrow> string + (Contact \<times> database)" where
  "apply_change (Insert c) D =
     (let row = insert_row c D;
          seq = (case id' c of None \<Rightarrow> contacts_id_seq D + 1 | Some k \<Rightarrow> contacts_id_seq D)
      in case violation (contacts D) row of
           Some msg \<Rightarrow> Inl msg
         | None \<Rightarrow> Inr (row, D\<lparr>contacts := contacts D @ [row], contacts_id_seq := seq\<rparr>))"
| "apply_change (Update c) D =
     (case filter (\<lambda>r. id' r = id' c) (contacts D) of
        [] \<Rightarrow> Inl ''UPDATE statement on table contacts expected to update 1 row(s); 0 were matched''
      | old # _ \<Rightarrow>
          if same_columns c old then Inr (old, D)
          else
            (let row = update_row old c D
             in case violation (filter (\<lambda>r. id' r \<noteq> id' c) (contacts D)) row of
                  Some msg \<Rightarrow> Inl msg
                | None \<Rightarrow>
                    Inr (row, D\<lparr>contacts := map (\<lambda>r. if id' r = id' c then row else r) (contacts D)\<rparr>)))"
| "apply_change (Remove c) D =
     Inr (c, D\<lparr>contacts := filter (\<lambda>r. id' r \<noteq> id' c) (contacts D)\<rparr>)"

fun flush :: "change list \<Rightarrow> database \<Rightarrow> string + (Contact list \<times> database)" where
  "flush [] D = Inr ([], D)"
| "flush (ch # chs) D =
     (case apply_change ch D of
        Inl msg \<Rightarrow> Inl msg
      | Inr (obj, D') \<Rightarrow>
          (case flush chs D' of
             Inl msg \<Rightarrow> Inl msg
           | Inr (objs, D'') \<Rightarrow> Inr (obj # objs, D'')))"

text \<open>
  \<open>AsyncSession\<close>: the database it is bound to, its unit of work, and the journal of the
  calls made on it, in order (what the repository's tests assert on their mock session).
  A session is closed when the last call on it was \<open>close()\<close>. The operations are entered
  with the request's session; the theorems that commit say so when they need its unit of work
  to be empty. A statement is run on the table as committed, and the only failures of the
  database are the violations of its declared constraints.
\<close>

datatype call = Execute | Add | Delete | Commit | Refresh | Rollback | Close

record AsyncSession =
  store :: database
  unit_of_work :: "change list"
  calls :: "call list"

definition called :: "call \<Rightarrow> AsyncSession \<Rightarrow> AsyncSession" where
  "called c db = db\<lparr>calls := calls db @ [c]\<rparr>"

definition closed :: "AsyncSession \<Rightarrow> bool" where
  "closed db \<longleftrightarrow> calls db \<noteq> [] \<and> last (calls db) = Close"

definition add :: "Contact \<Rightarrow> AsyncSession \<Rightarrow> AsyncSession" where
  "add c db = called Add (db\<lparr>unit_of_work := unit_of_work db @ [Insert c]\<rparr>)"

definition delete :: "Contact \<Rightarrow> AsyncSession \<Rightarrow> AsyncSession" where
  "delete c db = called Delete (db\<lparr>unit_of_work := unit_of_work db @ [Remove c]\<rparr>)"

text \<open>
  \<open>setattr(obj, key, value)\<close> for every item of \<open>model_dump()\<close>: the five attributes
  are overwritten and the session holds the object as dirty. It is no call on the session.
\<close>

definition setattr_items :: "Contact \<Rightarrow> ContactUpdate \<Rightarrow> AsyncSession \<Rightarrow> Contact \<times> AsyncSession" where
  "setattr_items obj d db =
     (let obj' = set_columns obj d
      in (obj', db\<lparr>unit_of_work := unit_of_work db @ [Update obj']\<rparr>))"

text \<open>
  \<open>commit()\<close> flushes the unit of work and makes it durable, or raises and leaves the
  database as it was (the transaction is aborted); the objects flushed are handed back as
  they are after the flush, since the model cannot mutate the caller's objects.
\<close>

definition commit :: "AsyncSession \<Rightarrow> (exn + Contact list) \<times> AsyncSession" where
  "commit db =
     (case flush (unit_of_work db) (store db) of
        Inl msg \<Rightarrow> (Inl (SQLAlchemyError msg), called Commit db)
      | Inr (objs, D) \<Rightarrow> (Inr objs, called Commit (db\<lparr>store := D, unit_of_work := []\<rparr>)))"

definition rollback :: "AsyncSession \<Rightarrow> AsyncSession" where
  "rollback db = called Rollback (db\<lparr>unit_of_work := []\<rparr>)"

definition close :: "AsyncSession \<Rightarrow> AsyncSession" where
  "close db = called Close (db\<lparr>unit_of_work := []\<rparr>)"

text \<open>\<open>refresh(obj)\<close> reloads the object's row by its primary key.\<close>

definition refresh :: "Contact \<Rightarrow> AsyncSession \<Rightarrow> (exn + Contact) \<times> AsyncSession" where
  "refresh obj db =
     (case filter (\<lambda>r. id' r = id' obj) (contacts (store db)) of
        [] \<Rightarrow> (Inl (SQLAlchemyError ''Could not refresh instance''), called Refresh db)
      | row # _ \<Rightarrow> (Inr row, called Refresh db))"

section \<open>Statements\<close>

text \<open>
  A \<open>select(Contact)\<close> statement: its WHERE conditions (a conjunction), its OFFSET and
  its LIMIT. The clauses may be given in any order; the database filters first, then skips
  \<open>OFFSET\<close> rows, then keeps at most \<open>LIMIT\<close> rows. Without ORDER BY the rows come in
  storage order.
\<close>

record Select =
  whereclause :: "(Contact \<Rightarrow> bool) list"
  offset_clause :: "nat option"
  limit_clause :: "nat option"

definition select_Contact :: Select where
  "select_Contact = \<lparr>whereclause = [], offset_clause = None, limit_clause = None\<rparr>"

definition filter_stmt :: "(Contact \<Rightarrow> bool) \<Rightarrow> Select \<Rightarrow> Select" where
  "filter_stmt cond st = st\<lparr>whereclause := whereclause st @ [cond]\<rparr>"

definition sql_offset :: "nat \<Rightarrow> Select \<Rightarrow> Select" where
  "sql_offset k st = st\<lparr>offset_clause := Some k\<rparr>"

definition sql_limit :: "nat \<Rightarrow> Select \<Rightarrow> Select" where
  "sql_limit n st = st\<lparr>limit_clause := Some n\<rparr>"

text \<open>\<open>filter_by(user=user)\<close> compares the foreign key with the user's primary key.\<close>

definition filter_by_user :: "User \<Rightarrow> Select \<Rightarrow> Select" where
  "filter_by_user user st = filter_stmt (\<lambda>c. user_id c = Some (uid user)) st"

definition filter_by_id_user :: "nat \<Rightarrow> User \<Rightarrow> Select \<Rightarrow> Select" where
  "filter_by_id_user contact_id user st =
     filter_stmt (\<lambda>c. user_id c = Some (uid user)) (filter_stmt (\<lambda>c. id' c = Some contact_id) st)"

definition run_select :: "Select \<Rightarrow> Contact list \<Rightarrow> Contact list" where
  "run_select st tbl =
     (let matching = filter (\<lambda>c. list_all (\<lambda>cond. cond c) (whereclause st)) tbl;
          skipped = (case offset_clause st of None \<Rightarrow> matching | Some k \<Rightarrow> drop k matching)
      in case limit_clause st of None \<Rightarrow> skipped | Some n \<Rightarrow> take n skipped)"

definition execute :: "Select \<Rightarrow> AsyncSession \<Rightarrow> Contact list \<times> AsyncSession" where
  "execute st db = (run_select st (contacts (store db)), called Execute db)"

text \<open>
  \<open>scalar_one_or_none()\<close>: no row is \<open>None\<close>, one row is that row, more rows raise
  \<open>MultipleResultsFound\<close>, a \<open>SQLAlchemyError\<close>.
\<close>

definition scalar_one_or_none :: "Contact list \<Rightarrow> exn + Contact option" where
  "scalar_one_or_none rows =
     (case rows of
        [] \<Rightarrow> Inr None
      | [row] \<Rightarrow> Inr (Some row)
      | _ \<Rightarrow> Inl (SQLAlchemyError ''Multiple rows were found when one or none was required''))"

subsection \<open>ILIKE\<close>

text \<open>
  \<open>like pattern text\<close> is SQL's LIKE: \<open>%\<close> matches any run of characters, \<open>_\<close> any one
  character, and a backslash takes the character after it literally (a backslash at the very
  end matches nothing; the patterns built here end in \<open>%\<close>). ILIKE compares without regard
  to the case of the ASCII letters.
\<close>

fun like :: "string \<Rightarrow> string \<Rightarrow> bool" where
  "like [] s = (s = [])"
| "like (p # ps) [] = (p = CHR ''%'' \<and> like ps [])"
| "like (p # ps) (c # cs) =
     (if p = CHR ''%'' then like ps (c # cs) \<or> like (p # ps) cs
      else if p = CHR ''_'' then like ps cs
      else if p = CHR 0x5C then (case ps of [] \<Rightarrow> False | q # qs \<Rightarrow> c = q \<and> like qs cs)
      else p = c \<and> like ps cs)"

definition lower_char :: "char \<Rightarrow> char" where
  "lower_char c =
     (let n = (of_char c :: nat) in if 65 \<le> n \<and> n \<le> 90 then char_of (n + 32) else c)"

definition lower :: "string \<Rightarrow> string" where
  "lower s = map lower_char s"

definition ilike :: "string \<Rightarrow> string \<Rightarrow> bool" where
  "ilike text pattern = like (lower pattern) (lower text)"

text \<open>Python's truth value of an optional string: \<open>None\<close> and \<open>''\<close> are false.\<close>

definition truthy :: "string option \<Rightarrow> bool" where
  "truthy x = (case x of None \<Rightarrow> False | Some s \<Rightarrow> s \<noteq> [])"

text \<open>The f-string \<open>f"%{name}%"\<close>; the branch that formats it has a string at hand.\<close>

definition fstring :: "string option \<Rightarrow> string" where
  "fstring x = (case x of None \<Rightarrow> ''%None%'' | Some s \<Rightarrow> CHR ''%'' # s @ ''%'')"

section \<open>The repository (src/repository/contacts.py)\<close>

text \<open>
  Every operation takes the session and returns it as the calls have left it. The route
  hands \<open>limit\<close> in \<open>[10, 100]\<close> and \<open>offset \<ge> 0\<close>, so both are natural numbers.
\<close>

definition get_contacts ::
  "nat \<Rightarrow> nat \<Rightarrow> string option \<Rightarrow> string option \<Rightarrow> string option \<Rightarrow> AsyncSession \<Rightarrow> User
   \<Rightarrow> Contact list \<times> AsyncSession" where
  "get_contacts limit offset name' surname' email' db user =
     (let statement = sql_limit limit (sql_offset offset (filter_by_user user select_Contact));
          statement = (if truthy name'
                       then filter_stmt (\<lambda>c. ilike (name c) (fstring name')) statement
                       else statement);
          statement = (if truthy surname'
                       then filter_stmt (\<lambda>c. ilike (surname c) (fstring surname')) statement
                       else statement);
          statement = (if truthy email'
                       then filter_stmt (\<lambda>c. ilike (email c) (fstring email')) statement
                       else statement);
          (rows, db1) = execute statement db;
          db2 = close db1
      in (rows, db2))"

definition get_contact ::
  "nat \<Rightarrow> AsyncSession \<Rightarrow> User \<Rightarrow> (exn + Contact option) \<times> AsyncSession" where
  "get_contact contact_id db user =
     (let statement = filter_by_id_user contact_id user select_Contact;
          (contact, db1) = execute statement db;
          db2 = close db1
      in (scalar_one_or_none contact, db2))"

definition create_contact ::
  "ContactSchema \<Rightarrow> AsyncSession \<Rightarrow> User \<Rightarrow> date \<Rightarrow> (exn + Contact) \<times> AsyncSession" where
  "create_contact body db user today =
     (if date_ge (birthday body) today
      then (Inl (HTTPException 400 ''Birthday must be in the past''), db)
      else
        (let contact = new_Contact body user;
             db1 = add contact db
         in case commit db1 of
              (Inl (SQLAlchemyError e), db2) \<Rightarrow>
                (Inl (HTTPException 500 (''Database error: '' @ e)), close (rollback db2))
            | (Inl other, db2) \<Rightarrow> (Inl other, close db2)
            | (Inr flushed, db2) \<Rightarrow>
                (case refresh (last flushed) db2 of
                   (Inl (SQLAlchemyError e), db3) \<Rightarrow>
                     (Inl (HTTPException 500 (''Database error: '' @ e)), close (rollback db3))
                 | (Inl other, db3) \<Rightarrow> (Inl other, close db3)
                 | (Inr row, db3) \<Rightarrow> (Inr row, close db3))))"

definition update_contact ::
  "nat \<Rightarrow> ContactUpdate \<Rightarrow> AsyncSession \<Rightarrow> User \<Rightarrow> (exn + Contact) \<times> AsyncSession" where
  "update_contact contact_id contact_update db user =
     (let statement = filter_by_id_user contact_id user select_Contact;
          (existing_contact, db1) = execute statement db
      in case scalar_one_or_none existing_contact of
           Inl e \<Rightarrow> (Inl e, db1)
         | Inr None \<Rightarrow> (Inl (HTTPException 404 ''Contact not found''), db1)
         | Inr (Some existing_contact) \<Rightarrow>
             (let (obj, db2) = setattr_items existing_contact contact_update db1
              in case commit db2 of
                   (Inl e, db3) \<Rightarrow> (Inl e, db3)
                 | (Inr flushed, db3) \<Rightarrow>
                     (case refresh obj db3 of
                        (Inl e, db4) \<Rightarrow> (Inl e, db4)
                      | (Inr row, db4) \<Rightarrow> (Inr row, close db4))))"

definition delete_contact ::
  "nat \<Rightarrow> AsyncSession \<Rightarrow> User \<Rightarrow> (exn + Contact) \<times> AsyncSession" where
  "delete_contact contact_id db user =
     (let statement = filter_by_id_user contact_id user select_Contact;
          (contact, db1) = execute statement db
      in case scalar_one_or_none contact of
           Inl e \<Rightarrow> (Inl e, db1)
         | Inr None \<Rightarrow> (Inl (HTTPException 404 ''Contact not found''), db1)
         | Inr (Some contact) \<Rightarrow>
             (case commit (delete contact db1) of
                (Inl e, db2) \<Rightarrow> (Inl e, db2)
              | (Inr flushed, db2) \<Rightarrow> (Inr contact, db2)))"

text \<open>
  The condition of \<open>get_upcoming_birthdays\<close>, clause for clause: \<open>or_\<close>, \<open>and_\<close> and
  \<open>extract('month' | 'day', Contact.birthday)\<close>.
\<close>

definition birthday_clause :: "date \<Rightarrow> date \<Rightarrow> Contact \<Rightarrow> bool" where
  "birthday_clause today next_week c \<longleftrightarrow>
     (month (birthday c) = month today \<and>
      day (birthday c) \<ge> day today \<and>
      month (birthday c) = month next_week \<and>
      day (birthday c) \<le> day next_week)
     \<or>
     (month today \<noteq> month next_week \<and>
      ((month (birthday c) = month today \<and> day (birthday c) \<ge> day today)
       \<or>
       (month (birthday c) = month next_week \<and> day (birthday c) \<le> day next_week)))"

definition get_upcoming_birthdays ::
  "AsyncSession \<Rightarrow> User \<Rightarrow> date \<Rightarrow> (exn + Contact list) \<times> AsyncSession" where
  "get_upcoming_birthdays db user today =
     (case date_add_days today 7 of
        Inl e \<Rightarrow> (Inl e, db)
      | Inr next_week \<Rightarrow>
          (let query = filter_stmt (birthday_clause today next_week) select_Contact;
               (result, db1) = execute query db;
               db2 = close db1
           in (Inr result, db2)))"

subsection \<open>Failures of the connection\<close>





section \<open>The specification's rules and example data\<close>

text \<open>
  The month and day rule as the specification words it (cases A and B), to be compared
  with \<open>birthday_clause\<close>.
\<close>

definition spec_birthday_matches :: "date \<Rightarrow> date \<Rightarrow> date \<Rightarrow> bool" where
  "spec_birthday_matches today horizon b \<longleftrightarrow>
     (if month today = month horizon
      then month b = month today \<and> day b \<ge> day today \<and> day b \<le> day horizon
      else (month b = month today \<and> day b \<ge> day today) \<or>
           (month b = month horizon \<and> day b \<le> day horizon))"

definition ymd :: "nat \<Rightarrow> nat \<Rightarrow> nat \<Rightarrow> date" where
  "ymd y m d = \<lparr>year = y, month = m, day = d\<rparr>"

definition ann :: User where
  "ann = \<lparr>uid = 1, username = ''ann'', user_email = ''ann@example.com''\<rparr>"

definition ben :: User where
  "ben = \<lparr>uid = 2, username = ''ben'', user_email = ''ben@example.com''\<rparr>"

definition stored :: "nat \<Rightarrow> string \<Rightarrow> string \<Rightarrow> date \<Rightarrow> nat option \<Rightarrow> Contact" where
  "stored k nm em b owner =
     \<lparr>name = nm, surname = ''Doe'', email = em, phone = ''555-0100'', birthday = b,
      id' = Some k, created_at = Some 10, updated_at = Some 10, user_id = owner\<rparr>"

definition session_on :: "Contact list \<Rightarrow> AsyncSession" where
  "session_on rows =
     \<lparr>store = \<lparr>contacts = rows, contacts_id_seq = length rows + 1, now = 20\<rparr>,
      unit_of_work = [], calls = []\<rparr>"

definition birthday_table :: "Contact list" where
  "birthday_table =
     [stored 1 ''Jan30'' ''a@example.com'' (ymd 1990 1 30) (Some 1),
      stored 2 ''Feb10'' ''b@example.com'' (ymd 1991 2 10) (Some 1),
      stored 3 ''Jan20'' ''c@example.com'' (ymd 1992 1 20) (Some 1),
      stored 4 ''Jun05'' ''d@example.com'' (ymd 1993 6 5) (Some 1),
      stored 5 ''Jun09'' ''e@example.com'' (ymd 1994 6 9) (Some 1)]"

definition past_body :: ContactSchema where
  "past_body =
     \<lparr>name = ''John'', surname = ''Doe'', email = ''john.doe@example.com'',
      phone = ''1234567890'', birthday = ymd 1990 1 1\<rparr>"


definition eve :: Contact where
  "eve = stored 1 ''Eve'' ''eve@example.com'' (ymd 1990 6 5) (Some 1)"

text \<open>
  For the listing: a filter without LIKE wildcards or escape, the specification's
  case-insensitive substring match, and what one optional filter demands of a column.
\<close>

definition wildcard_free :: "string \<Rightarrow> bool" where
  "wildcard_free f = list_all (\<lambda>c. c \<noteq> CHR ''%'' \<and> c \<noteq> CHR ''_'' \<and> c \<noteq> CHR 0x5C) f"

definition spec_contains_ci :: "string \<Rightarrow> string \<Rightarrow> bool" where
  "spec_contains_ci f t \<longleftrightarrow> (\<exists>pre post. lower t = pre @ lower f @ post)"

definition filter_applies :: "string option \<Rightarrow> string \<Rightarrow> bool" where
  "filter_applies f t = (if truthy f then ilike t (fstring f) else True)"

section \<open>Upcoming birthdays\<close>

lemma run_select_where:
  "run_select (filter_stmt cond select_Contact) tbl = filter cond tbl"
  by (simp add: run_select_def filter_stmt_def select_Contact_def)

lemma birthday_clause_spec:
  "birthday_clause today horizon = (\<lambda>c. spec_birthday_matches today horizon (birthday c))"
  by (rule ext) (auto simp: birthday_clause_def spec_birthday_matches_def)

lemma get_upcoming_birthdays_rows:
  assumes "date_add_days today 7 = Inr horizon"
  shows "get_upcoming_birthdays db user today =
           (Inr (filter (\<lambda>c. spec_birthday_matches today horizon (birthday c))
                   (contacts (store db))),
            close (called Execute db))"
  using assms
  by (simp add: get_upcoming_birthdays_def execute_def run_select_where birthday_clause_spec)

lemma jan28: "date_add_days (ymd 2024 1 28) 7 = Inr (ymd 2024 2 4)"
  by code_simp

lemma jun1: "date_add_days (ymd 2024 6 1) 7 = Inr (ymd 2024 6 8)"
  by code_simp

text \<open>
  C1. The claim: every contact that \<open>get_upcoming_birthdays(db, owner)\<close> returns belongs
  to \<open>owner\<close>. The query has no condition on the owner: asked on 2024-06-01 for user 1, it
  returns a contact of user 2 and a contact of nobody, both born in the first week of June.
\<close>

theorem get_upcoming_birthdays_ignores_owner:
  "fst (get_upcoming_birthdays
          (session_on [stored 1 ''Eve'' ''eve@example.com'' (ymd 1990 6 5) (Some 2),
                       stored 2 ''Sam'' ''sam@example.com'' (ymd 1985 6 3) None])
          ann (ymd 2024 6 1)) =
     Inr [stored 1 ''Eve'' ''eve@example.com'' (ymd 1990 6 5) (Some 2),
          stored 2 ''Sam'' ''sam@example.com'' (ymd 1985 6 3) None]
   \<and> uid ann = 1"
  unfolding get_upcoming_birthdays_rows [OF jun1]
  by (simp add: session_on_def stored_def spec_birthday_matches_def ymd_def ann_def)

text \<open>
  C2. For every \<open>today\<close> whose \<open>today + 7 days\<close> is the date \<open>horizon\<close>, the contacts
  returned are exactly the stored contacts whose birthday satisfies the specification's
  month and day rule, in storage order. On 2024-01-28 a stored contact born on a 30 January
  is returned, one born on a 10 February or a 20 January is not; on 2024-06-01 one born on a
  5 June is returned and one born on a 9 June is not.
\<close>

theorem get_upcoming_birthdays_month_day_rule:
  "(date_add_days today 7 = Inr horizon \<longrightarrow>
      fst (get_upcoming_birthdays db user today) =
        Inr (filter (\<lambda>c. spec_birthday_matches today horizon (birthday c)) (contacts (store db))))
   \<and> (\<exists>rows. fst (get_upcoming_birthdays db user (ymd 2024 1 28)) = Inr rows \<and>
        (\<forall>c \<in> set (contacts (store db)).
           (month (birthday c) = 1 \<and> day (birthday c) = 30 \<longrightarrow> c \<in> set rows) \<and>
           (month (birthday c) = 2 \<and> day (birthday c) = 10 \<longrightarrow> c \<notin> set rows) \<and>
           (month (birthday c) = 1 \<and> day (birthday c) = 20 \<longrightarrow> c \<notin> set rows)))
   \<and> (\<exists>rows. fst (get_upcoming_birthdays db user (ymd 2024 6 1)) = Inr rows \<and>
        (\<forall>c \<in> set (contacts (store db)).
           (month (birthday c) = 6 \<and> day (birthday c) = 5 \<longrightarrow> c \<in> set rows) \<and>
           (month (birthday c) = 6 \<and> day (birthday c) = 9 \<longrightarrow> c \<notin> set rows)))"
proof (intro conjI impI)
  assume "date_add_days today 7 = Inr horizon"
  then show "fst (get_upcoming_birthdays db user today) =
        Inr (filter (\<lambda>c. spec_birthday_matches today horizon (birthday c)) (contacts (store db)))"
    by (simp add: get_upcoming_birthdays_rows)
next
  show "\<exists>rows. fst (get_upcoming_birthdays db user (ymd 2024 1 28)) = Inr rows \<and>
        (\<forall>c \<in> set (contacts (store db)).
           (month (birthday c) = 1 \<and> day (birthday c) = 30 \<longrightarrow> c \<in> set rows) \<and>
           (month (birthday c) = 2 \<and> day (birthday c) = 10 \<longrightarrow> c \<notin> set rows) \<and>
           (month (birthday c) = 1 \<and> day (birthday c) = 20 \<longrightarrow> c \<notin> set rows))"
    unfolding get_upcoming_birthdays_rows [OF jan28]
    by (simp add: spec_birthday_matches_def ymd_def)
next
  show "\<exists>rows. fst (get_upcoming_birthdays db user (ymd 2024 6 1)) = Inr rows \<and>
        (\<forall>c \<in> set (contacts (store db)).
           (month (birthday c) = 6 \<and> day (birthday c) = 5 \<longrightarrow> c \<in> set rows) \<and>
           (month (birthday c) = 6 \<and> day (birthday c) = 9 \<longrightarrow> c \<notin> set rows))"
    unfolding get_upcoming_birthdays_rows [OF jun1]
    by (simp add: spec_birthday_matches_def ymd_def)
qed

theorem get_upcoming_birthdays_month_day_rule_witness:
  "date_add_days (ymd 2024 1 28) 7 = Inr (ymd 2024 2 4) \<and>
   fst (get_upcoming_birthdays (session_on birthday_table) ann (ymd 2024 1 28)) =
     Inr [stored 1 ''Jan30'' ''a@example.com'' (ymd 1990 1 30) (Some 1)] \<and>
   fst (get_upcoming_birthdays (session_on birthday_table) ann (ymd 2024 6 1)) =
     Inr [stored 4 ''Jun05'' ''d@example.com'' (ymd 1993 6 5) (Some 1)]"
proof -
  have h: "date_add_days (ymd 2024 1 28) 7 = Inr (ymd 2024 2 4)"
    by code_simp
  have h': "date_add_days (ymd 2024 6 1) 7 = Inr (ymd 2024 6 8)"
    by code_simp
  note r = get_upcoming_birthdays_month_day_rule
  have a: "fst (get_upcoming_birthdays (session_on birthday_table) ann (ymd 2024 1 28)) =
     Inr (filter (\<lambda>c. spec_birthday_matches (ymd 2024 1 28) (ymd 2024 2 4) (birthday c))
            (contacts (store (session_on birthday_table))))"
    using r [of "ymd 2024 1 28" "ymd 2024 2 4" "session_on birthday_table" ann] h by blast
  have b: "fst (get_upcoming_birthdays (session_on birthday_table) ann (ymd 2024 6 1)) =
     Inr (filter (\<lambda>c. spec_birthday_matches (ymd 2024 6 1) (ymd 2024 6 8) (birthday c))
            (contacts (store (session_on birthday_table))))"
    using r [of "ymd 2024 6 1" "ymd 2024 6 8" "session_on birthday_table" ann] h' by blast
  have a': "fst (get_upcoming_birthdays (session_on birthday_table) ann (ymd 2024 1 28)) =
     Inr [stored 1 ''Jan30'' ''a@example.com'' (ymd 1990 1 30) (Some 1)]"
    unfolding a
    by (simp add: session_on_def birthday_table_def stored_def spec_birthday_matches_def ymd_def)
  have b': "fst (get_upcoming_birthdays (session_on birthday_table) ann (ymd 2024 6 1)) =
     Inr [stored 4 ''Jun05'' ''d@example.com'' (ymd 1993 6 5) (Some 1)]"
    unfolding b
    by (simp add: session_on_def birthday_table_def stored_def spec_birthday_matches_def ymd_def)
  from h a' b' show ?thesis
    by blast
qed

section \<open>Creating a contact\<close>

lemma commit_raises_SQLAlchemyError:
  "fst (commit db) = Inl e \<Longrightarrow> \<exists>msg. e = SQLAlchemyError msg"
  by (auto simp: commit_def split: sum.splits prod.splits)

lemma refresh_raises_SQLAlchemyError:
  "fst (refresh obj db) = Inl e \<Longrightarrow> \<exists>msg. e = SQLAlchemyError msg"
  by (auto simp: refresh_def split: list.splits)

lemma commit_add_clean:
  assumes "unit_of_work db = []"
  shows "commit (add c db) =
     (case violation (contacts (store db)) (insert_row c (store db)) of
        Some msg \<Rightarrow> (Inl (SQLAlchemyError msg), called Commit (add c db))
      | None \<Rightarrow>
          (Inr [insert_row c (store db)],
           called Commit ((add c db)
             \<lparr>store := (store db)
                 \<lparr>contacts := contacts (store db) @ [insert_row c (store db)],
                  contacts_id_seq :=
                    (case id' c of None \<Rightarrow> contacts_id_seq (store db) + 1
                     | Some k \<Rightarrow> contacts_id_seq (store db))\<rparr>,
              unit_of_work := []\<rparr>)))"
  using assms
  by (simp add: commit_def add_def called_def Let_def split: option.splits)

lemma create_contact_commit_failed:
  assumes "\<not> date_ge (birthday body) today"
    and "commit (add (new_Contact body user) db) = (Inl (SQLAlchemyError msg), db')"
  shows "create_contact body db user today =
           (Inl (HTTPException 500 (''Database error: '' @ msg)), close (rollback db'))"
  using assms by (simp add: create_contact_def)

lemma create_contact_outcomes:
  assumes "\<not> date_ge (birthday body) today"
  shows "(\<exists>msg. fst (create_contact body db user today) =
                   Inl (HTTPException 500 (''Database error: '' @ msg)))
         \<or> (\<exists>row. fst (create_contact body db user today) = Inr row)"
proof (cases "commit (add (new_Contact body user) db)")
  case (Pair r db')
  show ?thesis
  proof (cases r)
    case (Inl e)
    with Pair commit_raises_SQLAlchemyError [of "add (new_Contact body user) db" e]
    obtain msg where "e = SQLAlchemyError msg" by auto
    with Pair Inl assms show ?thesis
      by (simp add: create_contact_commit_failed)
  next
    case (Inr flushed)
    show ?thesis
    proof (cases "refresh (last flushed) db'")
      case (Pair r' db'')
      note P = this
      show ?thesis
      proof (cases r')
        case (Inl e)
        with P refresh_raises_SQLAlchemyError [of "last flushed" db' e]
        obtain msg where "e = SQLAlchemyError msg" by auto
        with P Inl \<open>r = Inr flushed\<close> \<open>commit (add (new_Contact body user) db) = (r, db')\<close> assms
        show ?thesis
          by (simp add: create_contact_def)
      next
        case (Inr row)
        with P \<open>r = Inr flushed\<close> \<open>commit (add (new_Contact body user) db) = (r, db')\<close> assms
        show ?thesis
          by (simp add: create_contact_def)
      qed
    qed
  qed
qed

lemma create_contact_400_iff:
  "fst (create_contact body db user today) = Inl (HTTPException 400 ''Birthday must be in the past'')
     \<longleftrightarrow> date_ge (birthday body) today"
proof
  assume a: "fst (create_contact body db user today) =
               Inl (HTTPException 400 ''Birthday must be in the past'')"
  show "date_ge (birthday body) today"
  proof (rule ccontr)
    assume "\<not> date_ge (birthday body) today"
    from create_contact_outcomes [OF this, of db user] a show False
      by auto
  qed
next
  assume "date_ge (birthday body) today"
  then show "fst (create_contact body db user today) =
               Inl (HTTPException 400 ''Birthday must be in the past'')"
    by (simp add: create_contact_def)
qed

lemma create_contact_accepted:
  assumes past: "\<not> date_ge (birthday body) today"
    and clean: "unit_of_work db = []"
    and ok: "violation (contacts (store db)) (insert_row (new_Contact body user) (store db)) = None"
  shows "create_contact body db user today =
           (Inr (insert_row (new_Contact body user) (store db)),
            \<lparr>store = (store db)
               \<lparr>contacts := contacts (store db) @ [insert_row (new_Contact body user) (store db)],
                contacts_id_seq := Suc (contacts_id_seq (store db))\<rparr>,
             unit_of_work = [],
             calls = calls db @ [Add, Commit, Refresh, Close]\<rparr>)"
proof -
  let ?row = "insert_row (new_Contact body user) (store db)"
  have key: "id' ?row = Some (contacts_id_seq (store db))"
    by (simp add: insert_row_def new_Contact_def)
  from ok have fresh: "Some (contacts_id_seq (store db)) \<notin> set (map id' (contacts (store db)))"
    using key by (auto simp: violation_def split: if_splits)
  then have none: "filter (\<lambda>r. id' r = Some (contacts_id_seq (store db))) (contacts (store db)) = []"
    by (force simp: filter_empty_conv)
  have c: "commit (add (new_Contact body user) db) =
          (Inr [?row],
           called Commit ((add (new_Contact body user) db)
             \<lparr>store := (store db)
                 \<lparr>contacts := contacts (store db) @ [?row],
                  contacts_id_seq := Suc (contacts_id_seq (store db))\<rparr>,
              unit_of_work := []\<rparr>))"
    using commit_add_clean [OF clean, of "new_Contact body user"] ok
    by (simp add: new_Contact_def)
  let ?db2 = "called Commit ((add (new_Contact body user) db)
             \<lparr>store := (store db)
                 \<lparr>contacts := contacts (store db) @ [?row],
                  contacts_id_seq := Suc (contacts_id_seq (store db))\<rparr>,
              unit_of_work := []\<rparr>)"
  have r: "refresh ?row ?db2 = (Inr ?row, called Refresh ?db2)"
    using none key by (simp add: refresh_def called_def add_def)
  have "create_contact body db user today = (Inr ?row, close (called Refresh ?db2))"
    using past by (simp add: create_contact_def c r)
  also have "close (called Refresh ?db2) =
            \<lparr>store = (store db)
               \<lparr>contacts := contacts (store db) @ [?row],
                contacts_id_seq := Suc (contacts_id_seq (store db))\<rparr>,
             unit_of_work = [],
             calls = calls db @ [Add, Commit, Refresh, Close]\<rparr>"
    by (simp add: close_def called_def add_def)
  finally show ?thesis .
qed


text \<open>
  C3, amended. \<open>create_contact\<close> raises \<open>HTTPException(400, "Birthday must be in the
  past")\<close> if and only if the birthday is today or later. With a birthday strictly in the
  past it succeeds whenever the database accepts the row (the email is not stored yet, the
  next key of the sequence is free, name and surname have at most 150 characters): the
  contact returned has the fields of \<open>data\<close>, is owned by \<open>owner\<close>, has the key drawn from
  the sequence, which no stored row has, and is appended to the table. (A strictly past
  birthday alone does not make it succeed: see the counterexample.)
\<close>

theorem create_contact_validation_and_success:
  "(fst (create_contact body db user today) =
      Inl (HTTPException 400 ''Birthday must be in the past'')
    \<longleftrightarrow> date_ge (birthday body) today)
   \<and> (date_less (birthday body) today \<and> unit_of_work db = [] \<and> valid_ContactSchema body \<and>
       email body \<notin> set (map email (contacts (store db))) \<and>
       Some (contacts_id_seq (store db)) \<notin> set (map id' (contacts (store db)))
       \<longrightarrow> (\<exists>row. fst (create_contact body db user today) = Inr row \<and>
              ContactSchema.truncate row = body \<and>
              user_id row = Some (uid user) \<and>
              id' row = Some (contacts_id_seq (store db)) \<and>
              id' row \<notin> set (map id' (contacts (store db))) \<and>
              created_at row = Some (now (store db)) \<and>
              updated_at row = Some (now (store db)) \<and>
              contacts (store (snd (create_contact body db user today))) =
                contacts (store db) @ [row]))"
proof (intro conjI impI)
  show "fst (create_contact body db user today) =
      Inl (HTTPException 400 ''Birthday must be in the past'')
    \<longleftrightarrow> date_ge (birthday body) today"
    by (rule create_contact_400_iff)
next
  let ?row = "insert_row (new_Contact body user) (store db)"
  assume a: "date_less (birthday body) today \<and> unit_of_work db = [] \<and>
       valid_ContactSchema body \<and>
       email body \<notin> set (map email (contacts (store db))) \<and>
       Some (contacts_id_seq (store db)) \<notin> set (map id' (contacts (store db)))"
  have fields: "ContactSchema.truncate ?row = body" "user_id ?row = Some (uid user)"
    "id' ?row = Some (contacts_id_seq (store db))" "created_at ?row = Some (now (store db))"
    "updated_at ?row = Some (now (store db))" "email ?row = email body"
    "name ?row = name body" "surname ?row = surname body"
    by (simp_all add: insert_row_def new_Contact_def ContactSchema.truncate_def)
  from a have ok: "violation (contacts (store db)) ?row = None"
    by (simp add: violation_def fields valid_ContactSchema_def)
  from a have past: "\<not> date_ge (birthday body) today" and clean: "unit_of_work db = []"
    by (simp_all add: date_ge_def)
  note r = create_contact_accepted [OF past clean ok]
  from a show "\<exists>row. fst (create_contact body db user today) = Inr row \<and>
              ContactSchema.truncate row = body \<and>
              user_id row = Some (uid user) \<and>
              id' row = Some (contacts_id_seq (store db)) \<and>
              id' row \<notin> set (map id' (contacts (store db))) \<and>
              created_at row = Some (now (store db)) \<and>
              updated_at row = Some (now (store db)) \<and>
              contacts (store (snd (create_contact body db user today))) =
                contacts (store db) @ [row]"
    by (intro exI [of _ ?row]) (simp add: r fields)
qed

theorem create_contact_validation_and_success_witness:
  "date_less (birthday past_body) (ymd 2024 6 1) \<and>
   fst (create_contact past_body (session_on [eve]) ann (ymd 2024 6 1)) =
     Inr \<lparr>name = ''John'', surname = ''Doe'', email = ''john.doe@example.com'',
          phone = ''1234567890'', birthday = ymd 1990 1 1,
          id' = Some 2, created_at = Some 20, updated_at = Some 20, user_id = Some 1\<rparr> \<and>
   \<not> date_ge (birthday past_body) (ymd 2024 6 1)"
proof -
  have h: "date_less (birthday past_body) (ymd 2024 6 1) \<and> unit_of_work (session_on [eve]) = [] \<and>
       valid_ContactSchema past_body \<and>
       email past_body \<notin> set (map email (contacts (store (session_on [eve])))) \<and>
       Some (contacts_id_seq (store (session_on [eve])))
         \<notin> set (map id' (contacts (store (session_on [eve]))))"
    by (simp add: past_body_def date_less_def ymd_def session_on_def eve_def stored_def
        valid_ContactSchema_def)
  note t = create_contact_validation_and_success
    [of past_body "session_on [eve]" ann "ymd 2024 6 1"]
  from t h obtain row where
    r: "fst (create_contact past_body (session_on [eve]) ann (ymd 2024 6 1)) = Inr row"
    and f: "ContactSchema.truncate row = past_body" "user_id row = Some (uid ann)"
      "id' row = Some (contacts_id_seq (store (session_on [eve])))"
      "created_at row = Some (now (store (session_on [eve])))"
      "updated_at row = Some (now (store (session_on [eve])))"
    by blast
  have "row = \<lparr>name = ''John'', surname = ''Doe'', email = ''john.doe@example.com'',
          phone = ''1234567890'', birthday = ymd 1990 1 1,
          id' = Some 2, created_at = Some 20, updated_at = Some 20, user_id = Some 1\<rparr>"
    using f
    by (cases row) (simp add: ContactSchema.truncate_def past_body_def ann_def session_on_def)
  with r h t show ?thesis
    by (simp add: date_ge_def)
qed

text \<open>
  C3 as stated fails: a strictly past birthday whose email is already stored (here by a
  contact of another user) does not succeed; the commit raises and the operation answers 500.
\<close>

theorem create_contact_past_birthday_not_persisted:
  "date_less (birthday past_body) (ymd 2024 6 1) \<and>
   create_contact past_body
       (session_on [stored 1 ''Eve'' ''john.doe@example.com'' (ymd 1990 6 5) (Some 2)])
       ann (ymd 2024 6 1) =
     (Inl (HTTPException 500
        ''Database error: duplicate key value violates unique constraint contacts_email_key''),
      \<lparr>store = \<lparr>contacts = [stored 1 ''Eve'' ''john.doe@example.com'' (ymd 1990 6 5) (Some 2)],
                contacts_id_seq = 2, now = 20\<rparr>,
       unit_of_work = [], calls = [Add, Commit, Rollback, Close]\<rparr>)"
  by code_simp















text \<open>
  C9. A birthday that is not strictly in the past is rejected before the session is
  touched: the operation raises the 400 and hands the session back exactly as it was, the
  database, the unit of work and the journal of calls included (no add, commit or rollback).
\<close>

theorem create_contact_rejects_before_session:
  "date_ge (birthday body) today \<Longrightarrow>
     create_contact body db user today =
       (Inl (HTTPException 400 ''Birthday must be in the past''), db)"
  by (simp add: create_contact_def)

theorem create_contact_rejects_before_session_witness:
  "date_ge (birthday (past_body\<lparr>birthday := ymd 2024 6 1\<rparr>)) (ymd 2024 6 1) \<and>
   create_contact (past_body\<lparr>birthday := ymd 2024 6 1\<rparr>) (session_on birthday_table) ann
       (ymd 2024 6 1) =
     (Inl (HTTPException 400 ''Birthday must be in the past''), session_on birthday_table)"
proof -
  have h: "date_ge (birthday (past_body\<lparr>birthday := ymd 2024 6 1\<rparr>)) (ymd 2024 6 1)"
    by (simp add: date_ge_def date_less_def ymd_def)
  from h create_contact_rejects_before_session [OF h] show ?thesis
    by blast
qed

section \<open>Deleting a contact\<close>

lemma run_select_id_user:
  "run_select (filter_by_id_user contact_id user select_Contact) tbl =
     filter (\<lambda>c. id' c = Some contact_id \<and> user_id c = Some (uid user)) tbl"
  by (simp add: run_select_def filter_by_id_user_def filter_stmt_def select_Contact_def)

lemma unique_row:
  assumes "distinct (map id' tbl)" "c \<in> set tbl" "id' c = k" "P c"
  shows "filter (\<lambda>r. id' r = k \<and> P r) tbl = [c]"
  using assms
proof (induction tbl)
  case Nil
  then show ?case by simp
next
  case (Cons a tbl)
  show ?case
  proof (cases "a = c")
    case True
    with Cons.prems have "id' c \<notin> id' ` set tbl" "id' c = k"
      by simp_all
    then have "\<forall>r \<in> set tbl. id' r \<noteq> k"
      by (metis image_eqI)
    then have "filter (\<lambda>r. id' r = k \<and> P r) tbl = []"
      by (simp add: filter_empty_conv)
    with True Cons.prems show ?thesis by simp
  next
    case False
    with Cons.prems have "c \<in> set tbl" "id' a \<noteq> k"
      by (auto simp: image_iff)
    with Cons show ?thesis by simp
  qed
qed

lemma unique_key:
  assumes "distinct (map id' tbl)" "c \<in> set tbl" "id' c = k"
  shows "filter (\<lambda>r. id' r = k) tbl = [c]"
  using unique_row [OF assms, of "\<lambda>_. True"] by simp

lemma no_owned_row:
  assumes "\<not> (\<exists>c \<in> set tbl. id' c = Some contact_id \<and> user_id c = Some (uid user))"
  shows "filter (\<lambda>c. id' c = Some contact_id \<and> user_id c = Some (uid user)) tbl = []"
  using assms by (auto simp: filter_empty_conv)

lemma delete_contact_not_found:
  assumes "\<not> (\<exists>c \<in> set (contacts (store db)). id' c = Some contact_id \<and> user_id c = Some (uid user))"
  shows "delete_contact contact_id db user =
           (Inl (HTTPException 404 ''Contact not found''), called Execute db)"
  by (simp add: delete_contact_def execute_def run_select_id_user no_owned_row [OF assms]
      scalar_one_or_none_def)

lemma delete_contact_found:
  assumes "distinct (map id' (contacts (store db)))" "unit_of_work db = []"
    "c \<in> set (contacts (store db))" "id' c = Some contact_id" "user_id c = Some (uid user)"
  shows "delete_contact contact_id db user =
           (Inr c,
            \<lparr>store = (store db)\<lparr>contacts := filter (\<lambda>r. id' r \<noteq> Some contact_id) (contacts (store db))\<rparr>,
             unit_of_work = [], calls = calls db @ [Execute, Delete, Commit]\<rparr>)"
proof -
  have sel: "filter (\<lambda>c. id' c = Some contact_id \<and> user_id c = Some (uid user)) (contacts (store db)) = [c]"
    using unique_row [OF assms(1) assms(3) assms(4), of "\<lambda>c. user_id c = Some (uid user)"] assms(5)
    by simp
  show ?thesis
    using assms(2) assms(4)
    by (simp add: delete_contact_def execute_def run_select_id_user sel scalar_one_or_none_def
        commit_def delete_def called_def)
qed

lemma get_contact_rows:
  "get_contact contact_id db user =
     (scalar_one_or_none
        (filter (\<lambda>c. id' c = Some contact_id \<and> user_id c = Some (uid user)) (contacts (store db))),
      close (called Execute db))"
  by (simp add: get_contact_def execute_def run_select_id_user)

text \<open>
  C5. Without a contact of that id owned by \<open>owner\<close>, \<open>delete_contact\<close> raises
  \<open>HTTPException(404, "Contact not found")\<close>. With one (primary keys are distinct, the
  session enters with an empty unit of work) it returns the contact as it was stored,
  removes the row of that key from the table, and \<open>get_contact\<close> for the same id and owner
  on the session it leaves behind yields \<open>None\<close>.
\<close>

theorem delete_contact_removes_row:
  "(\<not> (\<exists>c \<in> set (contacts (store db)). id' c = Some contact_id \<and> user_id c = Some (uid user))
      \<longrightarrow> fst (delete_contact contact_id db user) = Inl (HTTPException 404 ''Contact not found''))
   \<and> (distinct (map id' (contacts (store db))) \<and> unit_of_work db = [] \<and>
       c \<in> set (contacts (store db)) \<and> id' c = Some contact_id \<and> user_id c = Some (uid user)
      \<longrightarrow> fst (delete_contact contact_id db user) = Inr c \<and>
          contacts (store (snd (delete_contact contact_id db user))) =
            filter (\<lambda>r. id' r \<noteq> Some contact_id) (contacts (store db)) \<and>
          c \<notin> set (contacts (store (snd (delete_contact contact_id db user)))) \<and>
          fst (get_contact contact_id (snd (delete_contact contact_id db user)) user) = Inr None)"
proof (intro conjI impI)
  assume "\<not> (\<exists>c \<in> set (contacts (store db)). id' c = Some contact_id \<and> user_id c = Some (uid user))"
  then show "fst (delete_contact contact_id db user) = Inl (HTTPException 404 ''Contact not found'')"
    by (simp add: delete_contact_not_found)
next
  assume a: "distinct (map id' (contacts (store db))) \<and> unit_of_work db = [] \<and>
       c \<in> set (contacts (store db)) \<and> id' c = Some contact_id \<and> user_id c = Some (uid user)"
  then have d: "delete_contact contact_id db user =
           (Inr c,
            \<lparr>store = (store db)\<lparr>contacts := filter (\<lambda>r. id' r \<noteq> Some contact_id) (contacts (store db))\<rparr>,
             unit_of_work = [], calls = calls db @ [Execute, Delete, Commit]\<rparr>)"
    by (simp add: delete_contact_found)
  show "fst (delete_contact contact_id db user) = Inr c"
    by (simp add: d)
  show "contacts (store (snd (delete_contact contact_id db user))) =
            filter (\<lambda>r. id' r \<noteq> Some contact_id) (contacts (store db))"
    by (simp add: d)
  from a show "c \<notin> set (contacts (store (snd (delete_contact contact_id db user))))"
    by (simp add: d)
  have "filter (\<lambda>c. id' c = Some contact_id \<and> user_id c = Some (uid user))
          (filter (\<lambda>r. id' r \<noteq> Some contact_id) (contacts (store db))) = []"
    by (auto simp: filter_empty_conv)
  then show "fst (get_contact contact_id (snd (delete_contact contact_id db user)) user) = Inr None"
    by (simp add: d get_contact_rows scalar_one_or_none_def)
qed

theorem delete_contact_removes_row_witness:
  "fst (delete_contact 1 (session_on [eve]) ann) = Inr eve \<and>
   contacts (store (snd (delete_contact 1 (session_on [eve]) ann))) = [] \<and>
   fst (get_contact 1 (snd (delete_contact 1 (session_on [eve]) ann)) ann) = Inr None \<and>
   fst (delete_contact 1 (session_on [eve]) ben) = Inl (HTTPException 404 ''Contact not found'')"
proof -
  have h: "distinct (map id' (contacts (store (session_on [eve])))) \<and>
        unit_of_work (session_on [eve]) = [] \<and>
        eve \<in> set (contacts (store (session_on [eve]))) \<and> id' eve = Some 1 \<and>
        user_id eve = Some (uid ann)"
    by (simp add: session_on_def eve_def stored_def ann_def)
  have n: "\<not> (\<exists>c \<in> set (contacts (store (session_on [eve]))).
              id' c = Some 1 \<and> user_id c = Some (uid ben))"
    by (simp add: session_on_def eve_def stored_def ben_def)
  have e: "filter (\<lambda>r. id' r \<noteq> Some 1) (contacts (store (session_on [eve]))) = []"
    by (simp add: session_on_def eve_def stored_def)
  from delete_contact_removes_row [of "session_on [eve]" 1 ann eve] h
    delete_contact_removes_row [of "session_on [eve]" 1 ben eve] n e
  show ?thesis
    by simp
qed

section \<open>Release of the session\<close>

text \<open>
  C8. The claim: every operation has closed the session when it terminates, on every exit
  path. \<open>delete_contact\<close> never calls \<open>close()\<close>: after a successful delete the
  journal is execute, delete, commit and the session is not closed. Nor is it closed when
  \<open>delete_contact\<close> or \<open>update_contact\<close> raise the 404, or when \<open>create_contact\<close>
  raises the 400 on a session that an earlier query had left open.
\<close>

theorem session_left_open:
  "\<not> closed (snd (delete_contact 1 (session_on [eve]) ann)) \<and>
   calls (snd (delete_contact 1 (session_on [eve]) ann)) = [Execute, Delete, Commit] \<and>
   fst (delete_contact 1 (session_on [eve]) ann) = Inr eve \<and>
   calls (snd (delete_contact 7 (session_on [eve]) ann)) = [Execute] \<and>
   calls (snd (update_contact 7 past_body (session_on [eve]) ann)) = [Execute] \<and>
   calls (snd (create_contact (past_body\<lparr>birthday := ymd 2024 6 1\<rparr>)
                 (called Execute (session_on [eve])) ann (ymd 2024 6 1))) = [Execute]"
  by code_simp

section \<open>Updating a contact\<close>

lemma update_contact_not_found:
  assumes "\<not> (\<exists>c \<in> set (contacts (store db)). id' c = Some contact_id \<and> user_id c = Some (uid user))"
  shows "update_contact contact_id contact_update db user =
           (Inl (HTTPException 404 ''Contact not found''), called Execute db)"
  by (simp add: update_contact_def execute_def run_select_id_user no_owned_row [OF assms]
      scalar_one_or_none_def)

lemma same_columns_set_columns:
  "same_columns (set_columns c d) c \<longleftrightarrow> ContactSchema.truncate c = d"
  by (cases c, cases d) (auto simp: same_columns_def set_columns_def ContactSchema.truncate_def)

lemma replace_same:
  assumes "distinct (map id' tbl)" "c \<in> set tbl"
  shows "map (\<lambda>r. if id' r = id' c then c else r) tbl = tbl"
proof -
  from assms(1) have "inj_on id' (set tbl)"
    by (simp add: distinct_map)
  with assms(2) have "\<forall>r \<in> set tbl. id' r = id' c \<longrightarrow> r = c"
    by (auto dest: inj_onD)
  then show ?thesis
    by (intro map_idI) auto
qed

lemma filter_replaced:
  assumes "id' row = k"
  shows "filter (\<lambda>r. id' r = k) (map (\<lambda>r. if id' r = k then row else r) tbl) =
           map (\<lambda>_. row) (filter (\<lambda>r. id' r = k) tbl)"
  using assms by (induction tbl) auto

lemma update_contact_unchanged:
  assumes "distinct (map id' (contacts (store db)))" "unit_of_work db = []"
    "c \<in> set (contacts (store db))" "id' c = Some contact_id" "user_id c = Some (uid user)"
    "ContactSchema.truncate c = d"
  shows "update_contact contact_id d db user =
           (Inr c, \<lparr>store = store db, unit_of_work = [],
                    calls = calls db @ [Execute, Commit, Refresh, Close]\<rparr>)"
proof -
  have sel: "filter (\<lambda>c. id' c = Some contact_id \<and> user_id c = Some (uid user)) (contacts (store db)) = [c]"
    using unique_row [OF assms(1) assms(3) assms(4), of "\<lambda>c. user_id c = Some (uid user)"] assms(5)
    by simp
  have key: "filter (\<lambda>r. id' r = Some contact_id) (contacts (store db)) = [c]"
    by (rule unique_key [OF assms(1) assms(3) assms(4)])
  have idc: "id' (set_columns c d) = Some contact_id"
    using assms(4) by (simp add: set_columns_def)
  have same: "same_columns (set_columns c d) c"
    using assms(6) by (simp add: same_columns_set_columns)
  show ?thesis
    using assms(2)
    by (simp add: update_contact_def execute_def run_select_id_user sel scalar_one_or_none_def
        setattr_items_def commit_def called_def idc key same refresh_def close_def Let_def)
qed

lemma update_contact_changed:
  assumes "distinct (map id' (contacts (store db)))" "unit_of_work db = []"
    "c \<in> set (contacts (store db))" "id' c = Some contact_id" "user_id c = Some (uid user)"
    "ContactSchema.truncate c \<noteq> d"
    "email d \<notin> set (map email (filter (\<lambda>r. id' r \<noteq> Some contact_id) (contacts (store db))))"
    "valid_ContactSchema d"
  shows "update_contact contact_id d db user =
           (Inr ((set_columns c d)\<lparr>updated_at := Some (now (store db))\<rparr>),
            \<lparr>store = (store db)
               \<lparr>contacts := map (\<lambda>r. if id' r = Some contact_id
                                      then (set_columns c d)\<lparr>updated_at := Some (now (store db))\<rparr>
                                      else r) (contacts (store db))\<rparr>,
             unit_of_work = [],
             calls = calls db @ [Execute, Commit, Refresh, Close]\<rparr>)"
proof -
  let ?row = "(set_columns c d)\<lparr>updated_at := Some (now (store db))\<rparr>"
  have sel: "filter (\<lambda>c. id' c = Some contact_id \<and> user_id c = Some (uid user)) (contacts (store db)) = [c]"
    using unique_row [OF assms(1) assms(3) assms(4), of "\<lambda>c. user_id c = Some (uid user)"] assms(5)
    by simp
  have key: "filter (\<lambda>r. id' r = Some contact_id) (contacts (store db)) = [c]"
    by (rule unique_key [OF assms(1) assms(3) assms(4)])
  have idc: "id' (set_columns c d) = Some contact_id"
    using assms(4) by (simp add: set_columns_def)
  have differ: "\<not> same_columns (set_columns c d) c"
    using assms(6) by (simp add: same_columns_set_columns)
  have row: "update_row c (set_columns c d) (store db) = ?row"
    by (cases c, cases d) (simp add: update_row_def set_columns_def ContactSchema.truncate_def)
  have rowf: "id' ?row = Some contact_id" "email ?row = email d" "name ?row = name d"
    "surname ?row = surname d"
    using assms(4) by (simp_all add: set_columns_def)
  have "Some contact_id \<notin> set (map id' (filter (\<lambda>r. id' r \<noteq> Some contact_id) (contacts (store db))))"
    by auto
  with assms(7) assms(8)
  have ok: "violation (filter (\<lambda>r. id' r \<noteq> Some contact_id) (contacts (store db))) ?row = None"
    unfolding violation_def rowf valid_ContactSchema_def by simp
  have fl: "flush [Update (set_columns c d)] (store db) =
      Inr ([?row], (store db)\<lparr>contacts := map (\<lambda>r. if id' r = Some contact_id then ?row else r)
                                              (contacts (store db))\<rparr>)"
    by (simp add: idc key differ row ok Let_def)
  have re: "filter (\<lambda>r. id' r = Some contact_id)
              (map (\<lambda>r. if id' r = Some contact_id then ?row else r) (contacts (store db))) = [?row]"
    using filter_replaced [OF rowf(1), of "contacts (store db)"] key by simp
  show ?thesis
    using assms(2)
    by (simp add: update_contact_def execute_def run_select_id_user sel scalar_one_or_none_def
        setattr_items_def commit_def fl called_def idc re refresh_def close_def Let_def
        del: flush.simps)
qed

text \<open>
  C4, amended. Without a contact of that id owned by \<open>owner\<close>, \<open>update_contact\<close> raises
  \<open>HTTPException(404, "Contact not found")\<close> and leaves the database and the unit of work
  as they were. With one (primary keys are distinct, the session enters with an empty unit of
  work), and when the database accepts the new values (no other contact has the new email,
  name and surname have at most 150 characters), the contact returned and stored has all
  five fields of the update data, keeps its id, owner and creation time, and replaces the
  old row in place; its modification time is the database clock's reading when the data
  differ from the stored fields, and stays as it was when they do not.
\<close>

theorem update_contact_full_replace:
  "(\<not> (\<exists>c \<in> set (contacts (store db)). id' c = Some contact_id \<and> user_id c = Some (uid user))
      \<longrightarrow> fst (update_contact contact_id d db user) = Inl (HTTPException 404 ''Contact not found'') \<and>
          store (snd (update_contact contact_id d db user)) = store db \<and>
          unit_of_work (snd (update_contact contact_id d db user)) = unit_of_work db)
   \<and> (distinct (map id' (contacts (store db))) \<and> unit_of_work db = [] \<and>
       c \<in> set (contacts (store db)) \<and> id' c = Some contact_id \<and> user_id c = Some (uid user) \<and>
       email d \<notin> set (map email (filter (\<lambda>r. id' r \<noteq> Some contact_id) (contacts (store db)))) \<and>
       valid_ContactSchema d
      \<longrightarrow> (\<exists>row. fst (update_contact contact_id d db user) = Inr row \<and>
             ContactSchema.truncate row = d \<and>
             id' row = id' c \<and> user_id row = user_id c \<and> created_at row = created_at c \<and>
             updated_at row =
               (if ContactSchema.truncate c = d then updated_at c else Some (now (store db))) \<and>
             contacts (store (snd (update_contact contact_id d db user))) =
               map (\<lambda>r. if id' r = Some contact_id then row else r) (contacts (store db))))"
proof (intro conjI impI)
  assume n: "\<not> (\<exists>c \<in> set (contacts (store db)).
                 id' c = Some contact_id \<and> user_id c = Some (uid user))"
  show "fst (update_contact contact_id d db user) = Inl (HTTPException 404 ''Contact not found'')"
    by (simp add: update_contact_not_found [OF n])
  show "store (snd (update_contact contact_id d db user)) = store db"
    by (simp add: update_contact_not_found [OF n] called_def)
  show "unit_of_work (snd (update_contact contact_id d db user)) = unit_of_work db"
    by (simp add: update_contact_not_found [OF n] called_def)
next
  assume a: "distinct (map id' (contacts (store db))) \<and> unit_of_work db = [] \<and>
       c \<in> set (contacts (store db)) \<and> id' c = Some contact_id \<and> user_id c = Some (uid user) \<and>
       email d \<notin> set (map email (filter (\<lambda>r. id' r \<noteq> Some contact_id) (contacts (store db)))) \<and>
       valid_ContactSchema d"
  then have d1: "distinct (map id' (contacts (store db)))" and d2: "unit_of_work db = []"
    and d3: "c \<in> set (contacts (store db))" and d4: "id' c = Some contact_id"
    and d5: "user_id c = Some (uid user)"
    and d6: "email d \<notin> set (map email (filter (\<lambda>r. id' r \<noteq> Some contact_id) (contacts (store db))))"
    and d7: "valid_ContactSchema d"
    by simp_all
  show "\<exists>row. fst (update_contact contact_id d db user) = Inr row \<and>
             ContactSchema.truncate row = d \<and>
             id' row = id' c \<and> user_id row = user_id c \<and> created_at row = created_at c \<and>
             updated_at row =
               (if ContactSchema.truncate c = d then updated_at c else Some (now (store db))) \<and>
             contacts (store (snd (update_contact contact_id d db user))) =
               map (\<lambda>r. if id' r = Some contact_id then row else r) (contacts (store db))"
  proof (cases "ContactSchema.truncate c = d")
    case True
    have "map (\<lambda>r. if id' r = Some contact_id then c else r) (contacts (store db)) =
            contacts (store db)"
      using replace_same [OF d1 d3] d4 by simp
    with True show ?thesis
      by (intro exI [of _ c]) (simp add: update_contact_unchanged [OF d1 d2 d3 d4 d5 True])
  next
    case False
    let ?row = "(set_columns c d)\<lparr>updated_at := Some (now (store db))\<rparr>"
    have "ContactSchema.truncate ?row = d"
      by (cases c, cases d) (simp add: set_columns_def ContactSchema.truncate_def)
    with False show ?thesis
      by (intro exI [of _ ?row])
         (simp add: update_contact_changed [OF d1 d2 d3 d4 d5 False d6 d7] set_columns_def)
  qed
qed

theorem update_contact_full_replace_witness:
  "fst (update_contact 1 past_body (session_on [eve]) ann) =
     Inr \<lparr>name = ''John'', surname = ''Doe'', email = ''john.doe@example.com'',
          phone = ''1234567890'', birthday = ymd 1990 1 1,
          id' = Some 1, created_at = Some 10, updated_at = Some 20, user_id = Some 1\<rparr> \<and>
   fst (update_contact 1 past_body (session_on [eve]) ben) =
     Inl (HTTPException 404 ''Contact not found'')"
proof -
  have h: "distinct (map id' (contacts (store (session_on [eve])))) \<and>
       unit_of_work (session_on [eve]) = [] \<and>
       eve \<in> set (contacts (store (session_on [eve]))) \<and> id' eve = Some 1 \<and>
       user_id eve = Some (uid ann) \<and>
       email past_body \<notin> set (map email (filter (\<lambda>r. id' r \<noteq> Some 1)
                                            (contacts (store (session_on [eve]))))) \<and>
       valid_ContactSchema past_body"
    by (simp add: session_on_def eve_def stored_def ann_def past_body_def valid_ContactSchema_def)
  have n: "\<not> (\<exists>c \<in> set (contacts (store (session_on [eve]))).
              id' c = Some 1 \<and> user_id c = Some (uid ben))"
    by (simp add: session_on_def eve_def stored_def ben_def)
  have ne: "ContactSchema.truncate eve \<noteq> past_body"
    by (simp add: eve_def stored_def past_body_def ContactSchema.truncate_def)
  from update_contact_full_replace [of "session_on [eve]" 1 ann past_body eve] h ne
  obtain row where r: "fst (update_contact 1 past_body (session_on [eve]) ann) = Inr row"
    and f: "ContactSchema.truncate row = past_body" "id' row = id' eve"
      "user_id row = user_id eve" "created_at row = created_at eve"
      "updated_at row = Some (now (store (session_on [eve])))"
    by auto
  have "row = \<lparr>name = ''John'', surname = ''Doe'', email = ''john.doe@example.com'',
          phone = ''1234567890'', birthday = ymd 1990 1 1,
          id' = Some 1, created_at = Some 10, updated_at = Some 20, user_id = Some 1\<rparr>"
    using f
    by (cases row)
       (simp add: ContactSchema.truncate_def past_body_def eve_def stored_def session_on_def)
  with r update_contact_full_replace [of "session_on [eve]" 1 ben past_body eve] n
  show ?thesis
    by simp
qed

text \<open>
  C4 as stated fails: the contact exists and is owned, but the new email belongs to another
  contact, so the commit raises and no field of the stored contact is overwritten.
\<close>

theorem update_contact_email_taken:
  "fst (update_contact 1 past_body
          (session_on [eve, stored 2 ''Jon'' ''john.doe@example.com'' (ymd 1980 2 2) (Some 1)])
          ann) =
     Inl (SQLAlchemyError ''duplicate key value violates unique constraint contacts_email_key'') \<and>
   contacts (store (snd (update_contact 1 past_body
          (session_on [eve, stored 2 ''Jon'' ''john.doe@example.com'' (ymd 1980 2 2) (Some 1)])
          ann))) =
     [eve, stored 2 ''Jon'' ''john.doe@example.com'' (ymd 1980 2 2) (Some 1)] \<and>
   id' eve = Some 1 \<and> user_id eve = Some (uid ann) \<and> name eve \<noteq> name past_body"
  by code_simp

section \<open>Filters and ownership\<close>

lemma like_percent:
  "like (CHR ''%'' # ps) s \<longleftrightarrow> (\<exists>k \<le> length s. like ps (drop k s))"
proof (induction s)
  case Nil
  then show ?case by simp
next
  case (Cons c cs)
  have "(\<exists>k \<le> length (c # cs). like ps (drop k (c # cs))) \<longleftrightarrow>
        like ps (c # cs) \<or> (\<exists>k \<le> length cs. like ps (drop k cs))"
  proof
    assume "\<exists>k \<le> length (c # cs). like ps (drop k (c # cs))"
    then obtain k where k: "k \<le> length (c # cs)" "like ps (drop k (c # cs))" by blast
    show "like ps (c # cs) \<or> (\<exists>k \<le> length cs. like ps (drop k cs))"
    proof (cases k)
      case 0
      with k show ?thesis by simp
    next
      case (Suc j)
      with k have "j \<le> length cs" "like ps (drop j cs)" by simp_all
      then show ?thesis by blast
    qed
  next
    assume "like ps (c # cs) \<or> (\<exists>k \<le> length cs. like ps (drop k cs))"
    then show "\<exists>k \<le> length (c # cs). like ps (drop k (c # cs))"
    proof
      assume "like ps (c # cs)"
      then have "0 \<le> length (c # cs) \<and> like ps (drop 0 (c # cs))" by simp
      then show ?thesis by blast
    next
      assume "\<exists>k \<le> length cs. like ps (drop k cs)"
      then obtain k where "k \<le> length cs" "like ps (drop k cs)" by blast
      then have "Suc k \<le> length (c # cs) \<and> like ps (drop (Suc k) (c # cs))" by simp
      then show ?thesis by blast
    qed
  qed
  with Cons show ?case by simp
qed

lemma like_plain_prefix:
  "wildcard_free f \<Longrightarrow> like (f @ ps) s \<longleftrightarrow> (\<exists>rest. s = f @ rest \<and> like ps rest)"
proof (induction f arbitrary: s)
  case Nil
  then show ?case by simp
next
  case (Cons a f)
  then have a: "a \<noteq> CHR ''%''" "a \<noteq> CHR ''_''" "a \<noteq> CHR 0x5C" and f: "wildcard_free f"
    by (simp_all add: wildcard_free_def)
  show ?case
  proof (cases s)
    case Nil
    with a show ?thesis by simp
  next
    case (Cons c cs)
    with a Cons.IH [OF f, of cs] show ?thesis by auto
  qed
qed

lemma like_contains:
  assumes "wildcard_free f"
  shows "like (CHR ''%'' # f @ ''%'') s \<longleftrightarrow> (\<exists>pre post. s = pre @ f @ post)"
proof -
  have all: "like ''%'' r" for r
    using like_percent [of "[]" r] by auto
  have "like (CHR ''%'' # f @ ''%'') s \<longleftrightarrow> (\<exists>k \<le> length s. \<exists>rest. drop k s = f @ rest)"
    by (simp add: like_percent [of "f @ ''%''"] like_plain_prefix [OF assms] all)
  also have "\<dots> \<longleftrightarrow> (\<exists>pre post. s = pre @ f @ post)"
  proof
    assume "\<exists>k \<le> length s. \<exists>rest. drop k s = f @ rest"
    then obtain k rest where "drop k s = f @ rest" by blast
    then have "s = take k s @ f @ rest"
      by (metis append_take_drop_id)
    then show "\<exists>pre post. s = pre @ f @ post" by blast
  next
    assume "\<exists>pre post. s = pre @ f @ post"
    then obtain pre post where s: "s = pre @ f @ post" by blast
    then have "length pre \<le> length s \<and> drop (length pre) s = f @ post" by simp
    then show "\<exists>k \<le> length s. \<exists>rest. drop k s = f @ rest" by blast
  qed
  finally show ?thesis .
qed

lemma lower_char_cases:
  "lower_char c = c \<or> (97 \<le> (of_char (lower_char c) :: nat) \<and> (of_char (lower_char c) :: nat) \<le> 122)"
proof (cases "65 \<le> (of_char c :: nat) \<and> (of_char c :: nat) \<le> 90")
  case True
  then have "(of_char (lower_char c) :: nat) = of_char c + 32"
    by (simp add: lower_char_def Let_def)
  with True show ?thesis by simp
next
  case False
  then show ?thesis by (auto simp: lower_char_def Let_def)
qed

lemma lower_char_wild:
  "lower_char c = CHR ''%'' \<longleftrightarrow> c = CHR ''%''"
  "lower_char c = CHR ''_'' \<longleftrightarrow> c = CHR ''_''"
  "lower_char c = CHR 0x5C \<longleftrightarrow> c = CHR 0x5C"
proof -
  have fixed: "lower_char CHR ''%'' = CHR ''%''" "lower_char CHR ''_'' = CHR ''_''"
    "lower_char CHR 0x5C = CHR 0x5C"
    by (simp_all add: lower_char_def)
  have "lower_char c = w \<longleftrightarrow> c = w"
    if w: "lower_char w = w" "\<not> (97 \<le> (of_char w :: nat) \<and> (of_char w :: nat) \<le> 122)" for w
    using lower_char_cases [of c] w by auto
  from this [of "CHR ''%''"] this [of "CHR ''_''"] this [of "CHR 0x5C"] fixed
  show "lower_char c = CHR ''%'' \<longleftrightarrow> c = CHR ''%''"
    "lower_char c = CHR ''_'' \<longleftrightarrow> c = CHR ''_''"
    "lower_char c = CHR 0x5C \<longleftrightarrow> c = CHR 0x5C"
    by simp_all
qed

lemma wildcard_free_lower: "wildcard_free (lower f) \<longleftrightarrow> wildcard_free f"
  by (induction f) (simp_all add: wildcard_free_def lower_def lower_char_wild)

lemma lower_fstring: "lower (fstring (Some f)) = CHR ''%'' # lower f @ ''%''"
  by (simp add: fstring_def lower_def lower_char_wild)

lemma ilike_contains:
  assumes "wildcard_free f"
  shows "ilike t (fstring (Some f)) \<longleftrightarrow> spec_contains_ci f t"
  using assms
  by (simp add: ilike_def lower_fstring like_contains wildcard_free_lower spec_contains_ci_def)

lemma filter_applies_contains:
  assumes "wildcard_free f"
  shows "filter_applies (Some f) t \<longleftrightarrow> spec_contains_ci f t"
proof (cases "f = []")
  case True
  have "\<exists>pre post. lower t = pre @ post"
    by (metis append_Nil)
  with True show ?thesis
    by (simp add: filter_applies_def truthy_def spec_contains_ci_def lower_def)
next
  case False
  with assms show ?thesis
    by (simp add: filter_applies_def truthy_def ilike_contains)
qed

lemma get_contacts_rows:
  "fst (get_contacts limit offset name' surname' email' db user) =
     take limit (drop offset (filter
       (\<lambda>c. user_id c = Some (uid user) \<and> filter_applies name' (name c) \<and>
            filter_applies surname' (surname c) \<and> filter_applies email' (email c))
       (contacts (store db))))"
  by (simp add: get_contacts_def execute_def run_select_def sql_limit_def sql_offset_def
      filter_by_user_def filter_stmt_def select_Contact_def filter_applies_def Let_def)

lemma get_contact_isolated:
  assumes "fst (get_contact contact_id db user) = Inr (Some c)"
  shows "c \<in> set (contacts (store db)) \<and> id' c = Some contact_id \<and> user_id c = Some (uid user)"
proof -
  let ?rows = "filter (\<lambda>c. id' c = Some contact_id \<and> user_id c = Some (uid user))
                 (contacts (store db))"
  from assms have "scalar_one_or_none ?rows = Inr (Some c)"
    by (simp add: get_contact_rows)
  then have "?rows = [c]"
    by (auto simp: scalar_one_or_none_def split: list.splits)
  then have "c \<in> set ?rows" by simp
  then show ?thesis by simp
qed

lemma get_contact_not_owned:
  assumes "\<not> (\<exists>c \<in> set (contacts (store db)). id' c = Some contact_id \<and> user_id c = Some (uid user))"
  shows "fst (get_contact contact_id db user) = Inr None"
  by (simp add: get_contact_rows no_owned_row [OF assms] scalar_one_or_none_def)

text \<open>
  C6, amended. \<open>get_contacts\<close> returns, in storage order, the contacts that belong to
  \<open>owner\<close> and match every filter that is applied, after skipping \<open>offset\<close> of them and
  keeping at most \<open>limit\<close>; it returns a list (the empty one when nothing matches), never
  an error. A filter that is \<open>None\<close> or empty is not applied; any other filter \<open>f\<close> is
  applied as \<open>ILIKE '%f%'\<close>, which is a case-insensitive substring match when \<open>f\<close> holds
  none of the characters \<open>%\<close>, \<open>_\<close> and backslash (these act as wildcards and escape
  otherwise). \<open>get_contact\<close> returns a contact only if it is stored with that id and owned
  by \<open>owner\<close>, and \<open>None\<close> when there is no such contact.
\<close>

theorem get_contacts_scoped_and_filtered:
  "fst (get_contacts limit offset name' surname' email' db user) =
     take limit (drop offset (filter
       (\<lambda>c. user_id c = Some (uid user) \<and> filter_applies name' (name c) \<and>
            filter_applies surname' (surname c) \<and> filter_applies email' (email c))
       (contacts (store db))))
   \<and> (\<forall>c \<in> set (fst (get_contacts limit offset name' surname' email' db user)).
         c \<in> set (contacts (store db)) \<and> user_id c = Some (uid user) \<and>
         filter_applies name' (name c) \<and> filter_applies surname' (surname c) \<and>
         filter_applies email' (email c))
   \<and> length (fst (get_contacts limit offset name' surname' email' db user)) \<le> limit
   \<and> (wildcard_free f \<longrightarrow> (filter_applies (Some f) t \<longleftrightarrow> spec_contains_ci f t))
   \<and> (fst (get_contact contact_id db user) = Inr (Some c) \<longrightarrow>
         c \<in> set (contacts (store db)) \<and> id' c = Some contact_id \<and> user_id c = Some (uid user))
   \<and> (\<not> (\<exists>c \<in> set (contacts (store db)). id' c = Some contact_id \<and> user_id c = Some (uid user))
        \<longrightarrow> fst (get_contact contact_id db user) = Inr None)"
proof (intro conjI impI ballI)
  let ?rows = "fst (get_contacts limit offset name' surname' email' db user)"
  let ?match = "\<lambda>c. user_id c = Some (uid user) \<and> filter_applies name' (name c) \<and>
            filter_applies surname' (surname c) \<and> filter_applies email' (email c)"
  show rows: "?rows = take limit (drop offset (filter ?match (contacts (store db))))"
    by (rule get_contacts_rows)
  show "length ?rows \<le> limit"
    by (simp add: rows)
  fix r
  assume "r \<in> set ?rows"
  then have "r \<in> set (filter ?match (contacts (store db)))"
    unfolding rows by (meson in_set_dropD in_set_takeD)
  then show "r \<in> set (contacts (store db))" "user_id r = Some (uid user)"
    "filter_applies name' (name r)" "filter_applies surname' (surname r)"
    "filter_applies email' (email r)"
    by simp_all
next
  assume "wildcard_free f"
  then show "filter_applies (Some f) t \<longleftrightarrow> spec_contains_ci f t"
    by (rule filter_applies_contains)
next
  assume g: "fst (get_contact contact_id db user) = Inr (Some c)"
  from get_contact_isolated [OF g]
  show "c \<in> set (contacts (store db))" "id' c = Some contact_id" "user_id c = Some (uid user)"
    by simp_all
next
  assume "\<not> (\<exists>c \<in> set (contacts (store db)). id' c = Some contact_id \<and> user_id c = Some (uid user))"
  then show "fst (get_contact contact_id db user) = Inr None"
    by (rule get_contact_not_owned)
qed

theorem get_contacts_scoped_and_filtered_witness:
  "fst (get_contacts 2 1 (Some ''J'') (Some ''do'') None (session_on birthday_table) ann) =
     [stored 3 ''Jan20'' ''c@example.com'' (ymd 1992 1 20) (Some 1),
      stored 4 ''Jun05'' ''d@example.com'' (ymd 1993 6 5) (Some 1)] \<and>
   wildcard_free ''do'' \<and> spec_contains_ci ''do'' ''Doe'' \<and>
   fst (get_contact 1 (session_on [eve]) ann) = Inr (Some eve) \<and>
   user_id eve = Some (uid ann) \<and>
   fst (get_contact 1 (session_on [eve]) ben) = Inr None"
proof -
  note t = get_contacts_scoped_and_filtered
  have rows: "fst (get_contacts 2 1 (Some ''J'') (Some ''do'') None (session_on birthday_table) ann) =
     [stored 3 ''Jan20'' ''c@example.com'' (ymd 1992 1 20) (Some 1),
      stored 4 ''Jun05'' ''d@example.com'' (ymd 1993 6 5) (Some 1)]"
    by code_simp
  have w: "wildcard_free ''do''"
    by code_simp
  have a: "filter_applies (Some ''do'') ''Doe''"
    by code_simp
  from t [where f = "''do''" and t = "''Doe''"] w a have s: "spec_contains_ci ''do'' ''Doe''"
    by blast
  have g: "fst (get_contact 1 (session_on [eve]) ann) = Inr (Some eve)"
    by code_simp
  from t [where contact_id = 1 and db = "session_on [eve]" and user = ann and c = eve] g
  have o: "user_id eve = Some (uid ann)"
    by blast
  have n: "\<not> (\<exists>c \<in> set (contacts (store (session_on [eve]))).
              id' c = Some 1 \<and> user_id c = Some (uid ben))"
    by (simp add: session_on_def eve_def stored_def ben_def)
  from t [where contact_id = 1 and db = "session_on [eve]" and user = ben] n
  have m: "fst (get_contact 1 (session_on [eve]) ben) = Inr None"
    by blast
  from rows w s g o m show ?thesis
    by blast
qed

text \<open>
  C6 as stated fails: the name filter \<open>_\<close> returns the contact named Eve, whose name does
  not contain an underscore.
\<close>

theorem get_contacts_underscore_filter:
  "fst (get_contacts 10 0 (Some ''_'') None None (session_on [eve]) ann) = [eve] \<and>
   \<not> spec_contains_ci ''_'' (name eve)"
proof
  show "fst (get_contacts 10 0 (Some ''_'') None None (session_on [eve]) ann) = [eve]"
    by code_simp
  have l: "lower (name eve) = ''eve''" "lower ''_'' = ''_''"
    by code_simp+
  show "\<not> spec_contains_ci ''_'' (name eve)"
  proof
    assume "spec_contains_ci ''_'' (name eve)"
    then obtain pre post where "''eve'' = pre @ ''_'' @ post"
      unfolding spec_contains_ci_def l by blast
    then have "CHR ''_'' \<in> set ''eve''"
      by (metis append_Cons in_set_conv_decomp)
    then show False
      by simp
  qed
qed

text \<open>
  C10. An empty string as name, surname or email filter is not applied: the call returns
  what it returns with no filter in that place, and leaves the session in the same state.
\<close>

theorem get_contacts_empty_filter:
  "get_contacts limit offset (Some []) surname' email' db user =
     get_contacts limit offset None surname' email' db user \<and>
   get_contacts limit offset name' (Some []) email' db user =
     get_contacts limit offset name' None email' db user \<and>
   get_contacts limit offset name' surname' (Some []) db user =
     get_contacts limit offset name' surname' None db user"
  by (simp add: get_contacts_def truthy_def)

end
